theory Spec2Isabelle
  imports Main "HOL-Library.Word"
begin

unbundle bit_operations_syntax

section \<open>GetHooks, diff.c: comparing two snapshots of hook information\<close>

text \<open>
  The unit under study is \<^verbatim>\<open>diff.c\<close>. It reads two snapshots of the HOOK objects of
  every attached desktop and prints what was added, removed or modified, after asking the
  user's configuration whether a hook is wanted.

  Conventions of the embedding.
  \<^item> The target is 32-bit Windows: pointers, HANDLEs, DWORDs and \<^verbatim>\<open>int\<close>s are \<open>32 word\<close>,
    a BYTE is \<open>8 word\<close>, a USHORT and a WCHAR are \<open>16 word\<close>. Pointers that the unit only
    compares are kept as their address; pointers it dereferences are the pointed-to value,
    under \<open>option\<close> when the unit tests them for NULL.
  \<^item> A wide C string is the list of the WCHARs stored at its address. The end of the list
    stands for the terminating NUL, and the C runtime's string functions also stop at a
    NUL element inside the list.
  \<^item> \<^verbatim>\<open>printf\<close> output is a list of output items, in the order printed.
  \<^item> \<^verbatim>\<open>FAIL_IF\<close> and \<^verbatim>\<open>exit\<close> end the process; a function that can reach them returns
    what it printed so far together with the reason, or an \<open>error + 'a\<close> when it prints
    nothing.
  \<^item> The global \<^verbatim>\<open>G->config\<close> is an explicit parameter.
\<close>

subsection \<open>Data\<close>

type_synonym BYTE = "8 word"
type_synonym USHORT = "16 word"
type_synonym WCHAR = "16 word"
type_synonym DWORD = "32 word"
type_synonym c_int = "32 word"
type_synonym PVOID = "32 word"
type_synonym HANDLE = "32 word"
type_synonym wstring = "WCHAR list"

record UNICODE_STRING =
  Length :: USHORT
  MaximumLength :: USHORT
  Buffer :: "wstring option"

record CLIENT_ID =
  UniqueThread :: HANDLE

record SYSTEM_THREAD_INFORMATION =
  ClientId :: CLIENT_ID

record SYSTEM_PROCESS_INFORMATION =
  UniqueProcessId :: HANDLE
  ImageName :: UNICODE_STRING

record gui =
  pvWin32ThreadInfo :: PVOID
  pvTeb :: PVOID
  sti :: "SYSTEM_THREAD_INFORMATION option"
  spi :: "SYSTEM_PROCESS_INFORMATION option"

record HANDLEENTRY =
  pHead :: PVOID
  bFlags :: BYTE

record HEAD =
  head_h :: HANDLE
  cLockObj :: DWORD

text \<open>
  Modelled from the spec: the declaration of \<^verbatim>\<open>HOOK\<close> lives in \<^verbatim>\<open>reactos.h\<close>, outside this
  unit. The spec calls \<^verbatim>\<open>flags\<close> a small bit-flags field, and the unit stores every part
  of it in a BYTE, so the field is a BYTE here.
\<close>

record HOOK =
  head :: HEAD
  rpdesk1 :: PVOID
  pSelf :: PVOID
  phkNext :: PVOID
  iHook :: c_int
  offPfn :: DWORD
  flags :: BYTE
  ihmod :: c_int
  rpdesk2 :: PVOID

text \<open>
  Modelled from the spec: \<^verbatim>\<open>struct hook\<close> is declared outside this unit. The spec gives
  every hook record a numeric identity key that orders the records of a desktop; it is
  the field \<open>hook_key\<close>.
\<close>

record hook =
  hook_key :: nat
  entry :: HANDLEENTRY
  object :: HOOK
  owner :: "gui option"
  origin :: "gui option"
  target :: "gui option"

text \<open>
  A desktop item and the address it is stored at: \<^verbatim>\<open>a->desktop != b->desktop\<close> compares
  two pointers, which is the comparison of the two addresses.
\<close>

record desktop_item =
  desktop_address :: PVOID
  pwszDesktopName :: wstring

text \<open>
  The array \<^verbatim>\<open>hook[0 .. hook_count - 1]\<close> of a desktop hook item is the list
  \<open>hooks\<close>, and \<^verbatim>\<open>hook_count\<close> is its length.
\<close>

record desktop_hook_item =
  desktop :: "desktop_item option"
  hooks :: "hook list"
  hook_max :: nat

abbreviation hook_count :: "desktop_hook_item \<Rightarrow> nat" where
  "hook_count d \<equiv> length (hooks d)"

text \<open>The linked list \<^verbatim>\<open>head, next, ...\<close> of desktop hook items is a list.\<close>

type_synonym desktop_hook_list = "desktop_hook_item list"

text \<open>
  Modelled from the spec: the list types are declared outside this unit. The unit names
  four of them; \<open>LIST_OTHER_TYPE\<close> stands for every other value of the enumeration.
\<close>

datatype list_type =
  LIST_OTHER_TYPE
| LIST_INCLUDE_HOOK
| LIST_EXCLUDE_HOOK
| LIST_INCLUDE_PROG
| LIST_EXCLUDE_PROG

record list_item =
  item_name :: "wstring option"
  item_id :: c_int

record list_store =
  init_time :: nat
  ltype :: list_type
  items :: "list_item list"

record config =
  proglist :: list_store
  hooklist :: list_store

text \<open>
  Modelled from the spec: \<^verbatim>\<open>FAIL_IF\<close> and \<^verbatim>\<open>MSG_FATAL\<close> are macros of \<^verbatim>\<open>util.h\<close>, outside
  this unit. The spec makes a failed precondition fatal: the process ends there. A
  failed \<^verbatim>\<open>FAIL_IF\<close> is the error \<open>FAIL_IF_failed\<close>, and \<^verbatim>\<open>exit( n )\<close> is \<open>Exit n\<close>.
  \<open>Undefined_read\<close> is the third way a run ends here: the process reads an object through
  a pointer of another type and beyond the object's end, for which C defines no
  behaviour; the run is taken to end at that read, with what was printed before it.
\<close>

datatype error = FAIL_IF_failed | Exit int | Undefined_read

subsection \<open>The C runtime's wide string functions\<close>

definition wchar_at :: "wstring \<Rightarrow> WCHAR" where
  "wchar_at s = (case s of [] \<Rightarrow> 0 | c # _ \<Rightarrow> c)"

definition towlower :: "WCHAR \<Rightarrow> WCHAR" where
  "towlower c = (if 0x41 \<le> c \<and> c \<le> 0x5A then c + 0x20 else c)"

fun wcslen :: "wstring \<Rightarrow> nat" where
  "wcslen [] = 0"
| "wcslen (c # s) = (if c = 0 then 0 else Suc (wcslen s))"

fun wcsicmp :: "wstring \<Rightarrow> wstring \<Rightarrow> int" where
  "wcsicmp [] [] = 0"
| "wcsicmp [] (c2 # s2) = (if towlower c2 = 0 then 0 else - 1)"
| "wcsicmp (c1 # s1) [] = (if towlower c1 = 0 then 0 else 1)"
| "wcsicmp (c1 # s1) (c2 # s2) =
     (if towlower c1 < towlower c2 then - 1
      else if towlower c2 < towlower c1 then 1
      else if towlower c1 = 0 then 0
      else wcsicmp s1 s2)"

fun wcsncmp :: "wstring \<Rightarrow> wstring \<Rightarrow> nat \<Rightarrow> int" where
  "wcsncmp s1 s2 0 = 0"
| "wcsncmp s1 s2 (Suc n) =
     (if wchar_at s1 < wchar_at s2 then - 1
      else if wchar_at s2 < wchar_at s1 then 1
      else if wchar_at s1 = 0 then 0
      else wcsncmp (tl s1) (tl s2) n)"

subsection \<open>Matching a hook against the configuration\<close>

text \<open>\<^verbatim>\<open>match_gui_process_name\<close>: the thread's process name against a name.\<close>

definition match_gui_process_name :: "gui \<Rightarrow> wstring \<Rightarrow> bool" where
  "match_gui_process_name g nm =
     (case spi g of
        None \<Rightarrow> False
      | Some p \<Rightarrow>
          (case Buffer (ImageName p) of
             None \<Rightarrow> False
           | Some buf \<Rightarrow> wcsicmp buf nm = 0))"

text \<open>\<^verbatim>\<open>match_gui_process_pid\<close>: the thread's process id against a pid; a zero pid fails.\<close>

definition match_gui_process_pid :: "gui \<Rightarrow> c_int \<Rightarrow> error + bool" where
  "match_gui_process_pid g pid =
     (if pid = 0 then Inl FAIL_IF_failed
      else case spi g of
             None \<Rightarrow> Inr False
           | Some p \<Rightarrow> Inr (pid = UniqueProcessId p))"

text \<open>
  \<^verbatim>\<open>match_hook_process_pid\<close>: owner, then origin, then target, each only when present,
  stopping at the first match. Its own guard tests a \<^verbatim>\<open>name\<close> that the function does not
  declare; the guard that the model carries is the one of \<^verbatim>\<open>match_gui_process_pid\<close>,
  reached for each thread that is present.
\<close>

definition match_opt_gui_pid :: "gui option \<Rightarrow> c_int \<Rightarrow> error + bool" where
  "match_opt_gui_pid go pid =
     (case go of None \<Rightarrow> Inr False | Some g \<Rightarrow> match_gui_process_pid g pid)"

definition match_hook_process_pid :: "hook \<Rightarrow> c_int \<Rightarrow> error + bool" where
  "match_hook_process_pid hk pid =
     (case match_opt_gui_pid (owner hk) pid of
        Inl e \<Rightarrow> Inl e
      | Inr True \<Rightarrow> Inr True
      | Inr False \<Rightarrow>
          (case match_opt_gui_pid (origin hk) pid of
             Inl e \<Rightarrow> Inl e
           | Inr True \<Rightarrow> Inr True
           | Inr False \<Rightarrow> match_opt_gui_pid (target hk) pid))"

definition match_opt_gui_name :: "gui option \<Rightarrow> wstring \<Rightarrow> bool" where
  "match_opt_gui_name go nm =
     (case go of None \<Rightarrow> False | Some g \<Rightarrow> match_gui_process_name g nm)"

definition match_hook_process_name :: "hook \<Rightarrow> wstring \<Rightarrow> bool" where
  "match_hook_process_name hk nm =
     (match_opt_gui_name (owner hk) nm
      \<or> match_opt_gui_name (origin hk) nm
      \<or> match_opt_gui_name (target hk) nm)"

text \<open>
  The two loops of \<^verbatim>\<open>is_hook_wanted\<close>: \<^verbatim>\<open>for( item = head; item && !yes; item = item->next )\<close>.
  The result is the final \<^verbatim>\<open>yes\<close>.
\<close>

fun prog_loop :: "hook \<Rightarrow> list_item list \<Rightarrow> error + bool" where
  "prog_loop hk [] = Inr False"
| "prog_loop hk (item # rest) =
     (case (case item_name item of
              Some nm \<Rightarrow> Inr (match_hook_process_name hk nm)
            | None \<Rightarrow> match_hook_process_pid hk (item_id item)) of
        Inl e \<Rightarrow> Inl e
      | Inr True \<Rightarrow> Inr True
      | Inr False \<Rightarrow> prog_loop hk rest)"

fun hook_loop :: "hook \<Rightarrow> list_item list \<Rightarrow> bool" where
  "hook_loop hk [] = False"
| "hook_loop hk (item # rest) =
     (if item_id item = iHook (object hk) then True else hook_loop hk rest)"

definition hooklist_wanted :: "config \<Rightarrow> hook \<Rightarrow> bool" where
  "hooklist_wanted cfg hk =
     (if init_time (hooklist cfg) \<noteq> 0
         \<and> (ltype (hooklist cfg) = LIST_INCLUDE_HOOK \<or> ltype (hooklist cfg) = LIST_EXCLUDE_HOOK)
      then
        (let yes = hook_loop hk (items (hooklist cfg)) in
         if (yes \<and> ltype (hooklist cfg) = LIST_EXCLUDE_HOOK)
            \<or> (\<not> yes \<and> ltype (hooklist cfg) = LIST_INCLUDE_HOOK)
         then False else True)
      else True)"

definition is_hook_wanted :: "config \<Rightarrow> hook \<Rightarrow> error + bool" where
  "is_hook_wanted cfg hk =
     (if init_time (proglist cfg) \<noteq> 0
         \<and> (ltype (proglist cfg) = LIST_INCLUDE_PROG \<or> ltype (proglist cfg) = LIST_EXCLUDE_PROG)
      then
        (case prog_loop hk (items (proglist cfg)) of
           Inl e \<Rightarrow> Inl e
         | Inr yes \<Rightarrow>
             if (yes \<and> ltype (proglist cfg) = LIST_EXCLUDE_PROG)
                \<or> (\<not> yes \<and> ltype (proglist cfg) = LIST_INCLUDE_PROG)
             then Inr False
             else Inr (hooklist_wanted cfg hk))
      else Inr (hooklist_wanted cfg hk))"


text \<open>
  Modelled from the spec: \<^verbatim>\<open>match\<close> is called by the merge loop and defined nowhere in
  this unit. The spec takes it to be the filter evaluator, \<^verbatim>\<open>is_hook_wanted\<close>.
\<close>

definition match :: "config \<Rightarrow> hook \<Rightarrow> error + bool" where
  "match cfg hk = is_hook_wanted cfg hk"

text \<open>
  Modelled from the spec: \<^verbatim>\<open>compare_hook\<close> is defined outside this unit. The spec aligns
  the two lists of a desktop by the identity key; the result is negative, zero or positive
  as the first key is smaller than, equal to or greater than the second.
\<close>

definition compare_hook :: "hook \<Rightarrow> hook \<Rightarrow> int" where
  "compare_hook a b =
     (if hook_key a < hook_key b then - 1 else if hook_key b < hook_key a then 1 else 0)"

subsection \<open>Output\<close>

datatype difftype = HOOK_ADDED | HOOK_REMOVED | HOOK_MODIFIED

datatype msg =
  Handleentry_flags_changed
| Handle_changed
| Lock_count_changed
| Rpdesk1_changed
| Kernel_address_changed
| Chain_modified
| Id_changed
| Function_offset_changed
| Flags_changed
| Module_atom_index_changed
| Rpdesk2_changed

text \<open>
  One item for each \<^verbatim>\<open>printf\<close> or print helper of the unit. \<open>NoticeTitle\<close> is the line
  \<^verbatim>\<open>[<diffname> HOOK <pHead> on desktop <deskname>]\<close>; \<open>GuiLine\<close> is a label followed by
  \<^verbatim>\<open>print_gui_brief\<close>; \<open>PtrLine\<close> is \<^verbatim>\<open>PRINT_NAME_FOR_PTR\<close>; \<open>EntryFlagsLine\<close> and
  \<open>HookFlagsLine\<close> are a label followed by \<^verbatim>\<open>print_HANDLEENTRY_flags\<close> and
  \<^verbatim>\<open>print_HOOK_flags\<close>.
\<close>

datatype out =
  SepBegin
| SepEnd
| NoticeTitle string PVOID wstring
| HookIdLine string c_int
| GuiLine string "gui option"
| GuiChanged string
| Message msg
| EntryFlagsLine string BYTE
| HookFlagsLine string BYTE
| PtrLine string PVOID
| DwordLine string DWORD
| IntLine string c_int
| MSG_FATAL string

type_synonym run = "out list \<times> error option"

definition emit :: "out list \<Rightarrow> out list \<times> 'r \<Rightarrow> out list \<times> 'r" where
  "emit xs r = (xs @ fst r, snd r)"

subsection \<open>Comparing two gui threads\<close>

text \<open>
  The local struct of \<^verbatim>\<open>print_diff_gui\<close>. Its image name always has a buffer, so the
  three members of the UNICODE_STRING are fields of their own and the buffer is the
  string itself.
\<close>

record stuff =
  stuff_pvWin32ThreadInfo :: PVOID
  stuff_pvTeb :: PVOID
  stuff_tid :: HANDLE
  stuff_pid :: HANDLE
  stuff_Length :: USHORT
  stuff_MaximumLength :: USHORT
  stuff_Buffer :: wstring

text \<open>A wide string literal \<^verbatim>\<open>L"..."\<close>.\<close>

definition L :: "string \<Rightarrow> wstring" where
  "L s = map (\<lambda>c. of_nat (of_char c)) s"

definition empty_stuff :: stuff where
  "empty_stuff =
     (let buf = L ''<unknown>'';
          len = of_nat (wcslen buf * 2)
      in \<lparr> stuff_pvWin32ThreadInfo = 0, stuff_pvTeb = 0, stuff_tid = 0, stuff_pid = 0,
           stuff_Length = len, stuff_MaximumLength = len + 2, stuff_Buffer = buf \<rparr>)"

definition fill_stuff :: "gui option \<Rightarrow> stuff" where
  "fill_stuff go =
     (case go of
        None \<Rightarrow> empty_stuff
      | Some g \<Rightarrow>
          (let s1 = empty_stuff \<lparr> stuff_pvWin32ThreadInfo := pvWin32ThreadInfo g,
                                  stuff_pvTeb := pvTeb g \<rparr>;
               s2 = (case sti g of
                       None \<Rightarrow> s1
                     | Some t \<Rightarrow> s1 \<lparr> stuff_tid := UniqueThread (ClientId t) \<rparr>)
           in case spi g of
                None \<Rightarrow> s2
              | Some p \<Rightarrow>
                  (let s3 = s2 \<lparr> stuff_pid := UniqueProcessId p \<rparr>
                   in case Buffer (ImageName p) of
                        None \<Rightarrow> s3
                      | Some buf \<Rightarrow>
                          s3 \<lparr> stuff_Length := Length (ImageName p),
                               stuff_MaximumLength := MaximumLength (ImageName p),
                               stuff_Buffer := buf \<rparr>)))"

definition same_stuff :: "stuff \<Rightarrow> stuff \<Rightarrow> bool" where
  "same_stuff oldstuff newstuff =
     (stuff_pvWin32ThreadInfo oldstuff = stuff_pvWin32ThreadInfo newstuff
      \<and> stuff_pvTeb oldstuff = stuff_pvTeb newstuff
      \<and> stuff_tid oldstuff = stuff_tid newstuff
      \<and> stuff_pid oldstuff = stuff_pid newstuff
      \<and> stuff_Length oldstuff = stuff_Length newstuff
      \<and> wcsncmp (stuff_Buffer oldstuff) (stuff_Buffer newstuff) (unat (stuff_Length oldstuff)) = 0)"

text \<open>
  \<^verbatim>\<open>print_diff_gui( a, b, threadname )\<close>: what is printed, and either the failed
  \<^verbatim>\<open>FAIL_IF( !threadname )\<close> or the return value (TRUE when something is printed). A NULL
  \<^verbatim>\<open>threadname\<close> is \<open>None\<close>.
\<close>

definition print_diff_gui ::
  "gui option \<Rightarrow> gui option \<Rightarrow> string option \<Rightarrow> out list \<times> (error + bool)" where
  "print_diff_gui a b threadname =
     (case threadname of
        None \<Rightarrow> ([], Inl FAIL_IF_failed)
      | Some nm \<Rightarrow>
          if same_stuff (fill_stuff a) (fill_stuff b) then ([], Inr False)
          else ([GuiChanged nm, GuiLine (''Old '' @ nm) a, GuiLine (''New '' @ nm) b],
                Inr True))"

subsection \<open>Notices\<close>

definition diffname :: "difftype \<Rightarrow> string" where
  "diffname d =
     (case d of HOOK_ADDED \<Rightarrow> ''Added'' | HOOK_REMOVED \<Rightarrow> ''Removed''
      | HOOK_MODIFIED \<Rightarrow> ''Modified'')"

definition print_hook_notice_begin :: "hook \<Rightarrow> wstring \<Rightarrow> difftype \<Rightarrow> out list" where
  "print_hook_notice_begin b deskname d =
     [SepBegin,
      NoticeTitle (diffname d) (pHead (entry b)) deskname,
      HookIdLine ''Name'' (iHook (object b)),
      GuiLine ''Owner'' (owner b),
      GuiLine ''Origin'' (origin b),
      GuiLine ''Target'' (target b)]"

definition print_hook_notice_end :: "out list" where
  "print_hook_notice_end = [SepEnd]"

subsection \<open>Comparing two hook records\<close>

text \<open>
  The three calls of \<^verbatim>\<open>print_diff_gui\<close> in \<^verbatim>\<open>print_diff_hook\<close> are written
  \<^verbatim>\<open>print_diff_gui( "owner", a->owner, b->owner )\<close>, while the function is declared
  \<^verbatim>\<open>print_diff_gui( a, b, threadname )\<close>. As written, the parameter \<^verbatim>\<open>threadname\<close> receives
  the new record's thread, the parameter \<^verbatim>\<open>b\<close> the old record's thread, and the parameter
  \<^verbatim>\<open>a\<close> the string literal.
  \<^item> When the new record's thread is NULL, \<^verbatim>\<open>FAIL_IF( !threadname )\<close> ends the process, as
    \<open>print_diff_gui\<close> does for the thread name \<open>None\<close>, whatever its other arguments.
  \<^item> Otherwise \<^verbatim>\<open>a\<close> is not NULL, and the function reads the members of a
    \<^verbatim>\<open>struct gui\<close> from the few bytes of the literal and from what lies behind them:
    \<open>Undefined_read\<close>.
  Nothing is printed before either, so no call written this way returns.
\<close>

definition print_diff_gui_as_called :: "string \<Rightarrow> gui option \<Rightarrow> gui option \<Rightarrow> run" where
  "print_diff_gui_as_called literal a_thread b_thread =
     (case b_thread of
        None \<Rightarrow> ([], Some FAIL_IF_failed)
      | Some g \<Rightarrow> ([], Some Undefined_read))"

text \<open>
  The statements of \<^verbatim>\<open>print_diff_hook\<close> in the order of the source, each as what it
  prints. The local \<^verbatim>\<open>modified\<close> is FALSE when the first test reads it, and that test
  is the only place that reads it or prints the notice header.
\<close>

definition entry_flags_block :: "hook \<Rightarrow> hook \<Rightarrow> wstring \<Rightarrow> out list" where
  "entry_flags_block a b deskname =
     (if bFlags (entry a) \<noteq> bFlags (entry b) then
        print_hook_notice_begin b deskname HOOK_MODIFIED
        @ [Message Handleentry_flags_changed]
        @ (let temp = bFlags (entry a) AND bFlags (entry b)
           in if temp \<noteq> 0 then [EntryFlagsLine ''Flags same'' temp] else [])
        @ (let temp = bFlags (entry a) AND NOT (bFlags (entry b))
           in if temp \<noteq> 0 then [EntryFlagsLine ''Flags removed'' temp] else [])
        @ (let temp = bFlags (entry b) AND NOT (bFlags (entry a))
           in if temp \<noteq> 0 then [EntryFlagsLine ''Flags added'' temp] else [])
      else [])"

definition handle_block :: "hook \<Rightarrow> hook \<Rightarrow> out list" where
  "handle_block a b =
     (if head_h (head (object a)) \<noteq> head_h (head (object b)) then
        [Message Handle_changed,
         PtrLine ''Old'' (head_h (head (object a))),
         PtrLine ''New'' (head_h (head (object b)))]
      else [])"

definition lock_count_block :: "hook \<Rightarrow> hook \<Rightarrow> out list" where
  "lock_count_block a b =
     (if cLockObj (head (object a)) \<noteq> cLockObj (head (object b)) then
        [Message Lock_count_changed,
         DwordLine ''Old'' (cLockObj (head (object a))),
         DwordLine ''New'' (cLockObj (head (object b)))]
      else [])"

definition rpdesk1_block :: "hook \<Rightarrow> hook \<Rightarrow> out list" where
  "rpdesk1_block a b =
     (if rpdesk1 (object a) \<noteq> rpdesk1 (object b) then
        [Message Rpdesk1_changed,
         PtrLine ''Old'' (rpdesk1 (object a)),
         PtrLine ''New'' (rpdesk1 (object b))]
      else [])"

definition pSelf_block :: "hook \<Rightarrow> hook \<Rightarrow> out list" where
  "pSelf_block a b =
     (if pSelf (object a) \<noteq> pSelf (object b) then
        [Message Kernel_address_changed,
         PtrLine ''Old'' (pSelf (object a)),
         PtrLine ''New'' (pSelf (object b))]
      else [])"

definition phkNext_block :: "hook \<Rightarrow> hook \<Rightarrow> out list" where
  "phkNext_block a b =
     (if phkNext (object a) \<noteq> phkNext (object b) then
        [Message Chain_modified,
         PtrLine ''Old'' (phkNext (object a)),
         PtrLine ''New'' (phkNext (object b))]
      else [])"

definition iHook_block :: "hook \<Rightarrow> hook \<Rightarrow> out list" where
  "iHook_block a b =
     (if iHook (object a) \<noteq> iHook (object b) then
        [Message Id_changed,
         HookIdLine ''Old'' (iHook (object a)),
         HookIdLine ''New'' (iHook (object b))]
      else [])"

definition offPfn_block :: "hook \<Rightarrow> hook \<Rightarrow> out list" where
  "offPfn_block a b =
     (if offPfn (object a) \<noteq> offPfn (object b) then
        [Message Function_offset_changed,
         PtrLine ''Old'' (offPfn (object a)),
         PtrLine ''New'' (offPfn (object b))]
      else [])"

definition hook_flags_block :: "hook \<Rightarrow> hook \<Rightarrow> out list" where
  "hook_flags_block a b =
     (if flags (object a) \<noteq> flags (object b) then
        [Message Flags_changed]
        @ (let temp = flags (object a) AND flags (object b)
           in if temp \<noteq> 0 then [HookFlagsLine ''Flags same'' temp] else [])
        @ (let temp = flags (object a) AND NOT (flags (object b))
           in if temp \<noteq> 0 then [HookFlagsLine ''Flags removed'' temp] else [])
        @ (let temp = flags (object b) AND NOT (flags (object a))
           in if temp \<noteq> 0 then [HookFlagsLine ''Flags added'' temp] else [])
      else [])"

definition ihmod_block :: "hook \<Rightarrow> hook \<Rightarrow> out list" where
  "ihmod_block a b =
     (if ihmod (object a) \<noteq> ihmod (object b) then
        [Message Module_atom_index_changed,
         IntLine ''Old'' (ihmod (object a)),
         IntLine ''New'' (ihmod (object b))]
      else [])"

definition rpdesk2_block :: "hook \<Rightarrow> hook \<Rightarrow> out list" where
  "rpdesk2_block a b =
     (if rpdesk2 (object a) \<noteq> rpdesk2 (object b) then
        [Message Rpdesk2_changed,
         PtrLine ''Old'' (rpdesk2 (object a)),
         PtrLine ''New'' (rpdesk2 (object b))]
      else [])"

text \<open>Statements in sequence: the first that ends the process ends the sequence.\<close>

definition prints :: "out list \<Rightarrow> run" where
  "prints xs = (xs, None)"

fun in_sequence :: "run list \<Rightarrow> run" where
  "in_sequence [] = ([], None)"
| "in_sequence (r # rs) =
     (case snd r of
        Some e \<Rightarrow> r
      | None \<Rightarrow> emit (fst r) (in_sequence rs))"

definition print_diff_hook :: "hook \<Rightarrow> hook \<Rightarrow> wstring \<Rightarrow> run" where
  "print_diff_hook a b deskname =
     in_sequence
       [prints (entry_flags_block a b deskname),
        print_diff_gui_as_called ''owner'' (owner a) (owner b),
        prints (handle_block a b),
        prints (lock_count_block a b),
        print_diff_gui_as_called ''origin'' (origin a) (origin b),
        prints (rpdesk1_block a b),
        prints (pSelf_block a b),
        prints (phkNext_block a b),
        prints (iHook_block a b),
        prints (offPfn_block a b),
        prints (hook_flags_block a b),
        prints (ihmod_block a b),
        print_diff_gui_as_called ''target'' (target a) (target b),
        prints (rpdesk2_block a b)]"

subsection \<open>Comparing the hooks of one desktop\<close>

text \<open>
  The first loop of \<^verbatim>\<open>print_diff_desktop_hook_items\<close>, from the cursors \<open>a_hi\<close> and
  \<open>b_hi\<close>. It returns what it printed and either the reason the process ended or the
  cursors at which the loop stopped.
\<close>

function diff_while ::
  "config \<Rightarrow> hook list \<Rightarrow> hook list \<Rightarrow> wstring \<Rightarrow> nat \<Rightarrow> nat
   \<Rightarrow> out list \<times> (error + nat \<times> nat)" where
  "diff_while cfg ha hb deskname a_hi b_hi =
     (if a_hi < length ha \<and> b_hi < length hb then
        (let ret = compare_hook (ha ! a_hi) (hb ! b_hi) in
         if ret < 0 then
           (case match cfg (ha ! a_hi) of
              Inl e \<Rightarrow> ([], Inl e)
            | Inr m \<Rightarrow>
                emit (if m then print_hook_notice_begin (ha ! a_hi) deskname HOOK_REMOVED
                                @ print_hook_notice_end
                      else [])
                  (diff_while cfg ha hb deskname (a_hi + 1) b_hi))
         else if 0 < ret then
           (case match cfg (hb ! b_hi) of
              Inl e \<Rightarrow> ([], Inl e)
            | Inr m \<Rightarrow>
                emit (if m then print_hook_notice_begin (hb ! b_hi) deskname HOOK_ADDED
                                @ print_hook_notice_end
                      else [])
                  (diff_while cfg ha hb deskname a_hi (b_hi + 1)))
         else
           (case snd (print_diff_hook (ha ! a_hi) (hb ! b_hi) deskname) of
              Some e \<Rightarrow> (fst (print_diff_hook (ha ! a_hi) (hb ! b_hi) deskname), Inl e)
            | None \<Rightarrow>
                emit (fst (print_diff_hook (ha ! a_hi) (hb ! b_hi) deskname))
                  (diff_while cfg ha hb deskname (a_hi + 1) (b_hi + 1))))
      else ([], Inr (a_hi, b_hi)))"
  by pat_completeness auto
termination
  by (relation "measure (\<lambda>(cfg, ha, hb, deskname, a_hi, b_hi).
        (length ha - a_hi) + (length hb - b_hi))") auto

text \<open>The second and third loops: the hooks left in the old and in the new list.\<close>

function removed_while :: "hook list \<Rightarrow> wstring \<Rightarrow> nat \<Rightarrow> out list" where
  "removed_while ha deskname a_hi =
     (if a_hi < length ha then
        print_hook_notice_begin (ha ! a_hi) deskname HOOK_REMOVED
        @ print_hook_notice_end
        @ removed_while ha deskname (a_hi + 1)
      else [])"
  by pat_completeness auto
termination
  by (relation "measure (\<lambda>(ha, deskname, a_hi). length ha - a_hi)") auto

function added_while :: "hook list \<Rightarrow> wstring \<Rightarrow> nat \<Rightarrow> out list" where
  "added_while hb deskname b_hi =
     (if b_hi < length hb then
        print_hook_notice_begin (hb ! b_hi) deskname HOOK_ADDED
        @ print_hook_notice_end
        @ added_while hb deskname (b_hi + 1)
      else [])"
  by pat_completeness auto
termination
  by (relation "measure (\<lambda>(hb, deskname, b_hi). length hb - b_hi)") auto

declare diff_while.simps [simp del] removed_while.simps [simp del] added_while.simps [simp del]

definition print_diff_desktop_hook_items ::
  "config \<Rightarrow> desktop_hook_item \<Rightarrow> desktop_hook_item \<Rightarrow> run" where
  "print_diff_desktop_hook_items cfg a b =
     (case desktop a of
        None \<Rightarrow> ([], Some FAIL_IF_failed)
      | Some da \<Rightarrow>
          (case desktop b of
             None \<Rightarrow> ([], Some FAIL_IF_failed)
           | Some db \<Rightarrow>
               if desktop_address da \<noteq> desktop_address db then ([], Some FAIL_IF_failed)
               else if hook_max a \<noteq> hook_max b then ([], Some FAIL_IF_failed)
               else
                 (let deskname = pwszDesktopName db in
                  case diff_while cfg (hooks a) (hooks b) deskname 0 0 of
                    (printed, Inl e) \<Rightarrow> (printed, Some e)
                  | (printed, Inr (a_hi, b_hi)) \<Rightarrow>
                      (printed @ removed_while (hooks a) deskname a_hi
                               @ added_while (hooks b) deskname b_hi, None))))"

subsection \<open>Comparing the hooks of every desktop\<close>

text \<open>
  \<^verbatim>\<open>print_diff_desktop_hook_lists\<close>: the two lists are walked together while both have an
  item; after the loop, an item left in either list is fatal.
\<close>

fun print_diff_desktop_hook_lists ::
  "config \<Rightarrow> desktop_hook_list \<Rightarrow> desktop_hook_list \<Rightarrow> run" where
  "print_diff_desktop_hook_lists cfg (a # list1) (b # list2) =
     (case print_diff_desktop_hook_items cfg a b of
        (printed, Some e) \<Rightarrow> (printed, Some e)
      | (printed, None) \<Rightarrow> emit printed (print_diff_desktop_hook_lists cfg list1 list2))"
| "print_diff_desktop_hook_lists cfg [] [] = ([], None)"
| "print_diff_desktop_hook_lists cfg list1 list2 =
     ([MSG_FATAL ''The desktop hook stores could not be fully compared.''], Some (Exit 1))"


section \<open>The properties, in the words of the specification\<close>

subsection \<open>The filter policy\<close>

text \<open>The characters of a wide C string: those before the first NUL.\<close>

definition cstr :: "wstring \<Rightarrow> wstring" where
  "cstr s = takeWhile (\<lambda>c. c \<noteq> 0) s"

definition same_name_ignoring_case :: "wstring \<Rightarrow> wstring \<Rightarrow> bool" where
  "same_name_ignoring_case s t = (map towlower (cstr s) = map towlower (cstr t))"

text \<open>The process id and the image name of an optional thread context, when resolved.\<close>

definition context_pid :: "gui option \<Rightarrow> HANDLE option" where
  "context_pid go =
     (case go of None \<Rightarrow> None
      | Some g \<Rightarrow> (case spi g of None \<Rightarrow> None | Some p \<Rightarrow> Some (UniqueProcessId p)))"

definition context_name :: "gui option \<Rightarrow> wstring option" where
  "context_name go =
     (case go of None \<Rightarrow> None
      | Some g \<Rightarrow> (case spi g of None \<Rightarrow> None | Some p \<Rightarrow> Buffer (ImageName p)))"

text \<open>A rule entry is a name when it has one, and a pid otherwise.\<close>

definition context_matches :: "gui option \<Rightarrow> list_item \<Rightarrow> bool" where
  "context_matches go item =
     (case item_name item of
        Some nm \<Rightarrow>
          (case context_name go of None \<Rightarrow> False | Some buf \<Rightarrow> same_name_ignoring_case buf nm)
      | None \<Rightarrow> context_pid go = Some (item_id item))"

definition program_rule_matches :: "config \<Rightarrow> hook \<Rightarrow> bool" where
  "program_rule_matches cfg hk =
     list_ex (\<lambda>item. context_matches (owner hk) item
                     \<or> context_matches (origin hk) item
                     \<or> context_matches (target hk) item)
       (items (proglist cfg))"

definition hook_rule_matches :: "config \<Rightarrow> hook \<Rightarrow> bool" where
  "hook_rule_matches cfg hk =
     list_ex (\<lambda>item. item_id item = iHook (object hk)) (items (hooklist cfg))"

datatype rule_mode = Disabled | Include | Exclude

definition program_rule_mode :: "config \<Rightarrow> rule_mode" where
  "program_rule_mode cfg =
     (if init_time (proglist cfg) = 0 then Disabled
      else if ltype (proglist cfg) = LIST_INCLUDE_PROG then Include
      else if ltype (proglist cfg) = LIST_EXCLUDE_PROG then Exclude
      else Disabled)"

definition hook_rule_mode :: "config \<Rightarrow> rule_mode" where
  "hook_rule_mode cfg =
     (if init_time (hooklist cfg) = 0 then Disabled
      else if ltype (hooklist cfg) = LIST_INCLUDE_HOOK then Include
      else if ltype (hooklist cfg) = LIST_EXCLUDE_HOOK then Exclude
      else Disabled)"

definition passes :: "rule_mode \<Rightarrow> bool \<Rightarrow> bool" where
  "passes m matched =
     (case m of Disabled \<Rightarrow> True | Include \<Rightarrow> matched | Exclude \<Rightarrow> \<not> matched)"

definition wanted_spec :: "config \<Rightarrow> hook \<Rightarrow> bool" where
  "wanted_spec cfg hk =
     (passes (program_rule_mode cfg) (program_rule_matches cfg hk)
      \<and> passes (hook_rule_mode cfg) (hook_rule_matches cfg hk))"

text \<open>The contract of \<^verbatim>\<open>match_gui_process_pid\<close>: no pid entry of the program rule is zero.\<close>

definition pids_nonzero :: "config \<Rightarrow> bool" where
  "pids_nonzero cfg =
     list_all (\<lambda>item. item_name item = None \<longrightarrow> item_id item \<noteq> 0) (items (proglist cfg))"

definition hook_has_pid :: "hook \<Rightarrow> HANDLE \<Rightarrow> bool" where
  "hook_has_pid hk pid =
     (context_pid (owner hk) = Some pid
      \<or> context_pid (origin hk) = Some pid
      \<or> context_pid (target hk) = Some pid)"

text \<open>The policy "exclude pid=100, include type=2".\<close>

definition exclude_100_include_2 :: config where
  "exclude_100_include_2 =
     \<lparr> proglist = \<lparr> init_time = 1, ltype = LIST_EXCLUDE_PROG,
                    items = [\<lparr> item_name = None, item_id = 100 \<rparr>] \<rparr>,
       hooklist = \<lparr> init_time = 1, ltype = LIST_INCLUDE_HOOK,
                    items = [\<lparr> item_name = None, item_id = 2 \<rparr>] \<rparr> \<rparr>"

subsection \<open>The thread context comparator\<close>

text \<open>
  What a thread context is compared by. An absent context, and every part of a present
  context that was not resolved, has the value of the sentinel: null addresses, zero ids,
  and the image name "<unknown>", which is 18 bytes long.
\<close>

definition thread_info_address :: "gui option \<Rightarrow> PVOID" where
  "thread_info_address go = (case go of None \<Rightarrow> 0 | Some g \<Rightarrow> pvWin32ThreadInfo g)"

definition thread_local_address :: "gui option \<Rightarrow> PVOID" where
  "thread_local_address go = (case go of None \<Rightarrow> 0 | Some g \<Rightarrow> pvTeb g)"

definition thread_id :: "gui option \<Rightarrow> HANDLE" where
  "thread_id go =
     (case go of None \<Rightarrow> 0
      | Some g \<Rightarrow> (case sti g of None \<Rightarrow> 0 | Some t \<Rightarrow> UniqueThread (ClientId t)))"

definition process_id :: "gui option \<Rightarrow> HANDLE" where
  "process_id go = (case context_pid go of None \<Rightarrow> 0 | Some pid \<Rightarrow> pid)"

definition image_name_length :: "gui option \<Rightarrow> USHORT" where
  "image_name_length go =
     (case go of None \<Rightarrow> 18
      | Some g \<Rightarrow>
          (case spi g of None \<Rightarrow> 18
           | Some p \<Rightarrow>
               (case Buffer (ImageName p) of None \<Rightarrow> 18 | Some buf \<Rightarrow> Length (ImageName p))))"

definition image_name_chars :: "gui option \<Rightarrow> wstring" where
  "image_name_chars go =
     (case context_name go of None \<Rightarrow> L ''<unknown>'' | Some buf \<Rightarrow> buf)"

text \<open>The bytes of the image name: the first \<open>Length\<close> bytes of the buffer, two to a WCHAR.\<close>

definition image_name_bytes :: "gui option \<Rightarrow> wstring" where
  "image_name_bytes go = take (unat (image_name_length go) div 2) (image_name_chars go)"

text \<open>
  What \<^verbatim>\<open>wcsncmp\<close> reads of the image name when it is given the length in bytes as
  its count: the characters before the first NUL, at most \<open>Length\<close> of them.
\<close>

definition image_name_read :: "nat \<Rightarrow> gui option \<Rightarrow> wstring" where
  "image_name_read n go = take n (cstr (image_name_chars go))"

text \<open>
  A counted string as the system hands it out: the buffer holds no NUL before its
  terminator and \<open>Length\<close> is the size of its characters in bytes.
\<close>

definition wf_image_name :: "gui option \<Rightarrow> bool" where
  "wf_image_name go =
     (0 \<notin> set (image_name_chars go)
      \<and> unat (image_name_length go) = 2 * length (image_name_chars go))"

text \<open>A context that carries the values of the sentinel in every position.\<close>

definition looks_unknown :: "gui \<Rightarrow> bool" where
  "looks_unknown g =
     (thread_info_address (Some g) = 0 \<and> thread_local_address (Some g) = 0
      \<and> thread_id (Some g) = 0 \<and> process_id (Some g) = 0
      \<and> image_name_length (Some g) = 18 \<and> image_name_chars (Some g) = L ''<unknown>'')"

text \<open>A context whose process was resolved: it carries a process id.\<close>

definition resolvable :: "gui \<Rightarrow> bool" where
  "resolvable g = (case spi g of None \<Rightarrow> False | Some p \<Rightarrow> UniqueProcessId p \<noteq> 0)"

subsection \<open>The three parts of a flags change\<close>

definition flags_same :: "BYTE \<Rightarrow> BYTE \<Rightarrow> BYTE" where
  "flags_same A B = A AND B"

definition flags_removed :: "BYTE \<Rightarrow> BYTE \<Rightarrow> BYTE" where
  "flags_removed A B = A AND NOT B"

definition flags_added :: "BYTE \<Rightarrow> BYTE \<Rightarrow> BYTE" where
  "flags_added A B = B AND NOT A"

subsection \<open>Notices and their titles\<close>

definition notice :: "hook \<Rightarrow> wstring \<Rightarrow> difftype \<Rightarrow> out list" where
  "notice hk deskname d = print_hook_notice_begin hk deskname d @ print_hook_notice_end"


subsection \<open>Sample records\<close>

definition sample_process :: "HANDLE \<Rightarrow> string \<Rightarrow> SYSTEM_PROCESS_INFORMATION" where
  "sample_process pid nm =
     \<lparr> UniqueProcessId = pid,
       ImageName = \<lparr> Length = of_nat (2 * length nm), MaximumLength = of_nat (2 * length nm + 2),
                     Buffer = Some (L nm) \<rparr> \<rparr>"

definition sample_gui :: "HANDLE \<Rightarrow> string \<Rightarrow> gui" where
  "sample_gui pid nm =
     \<lparr> pvWin32ThreadInfo = 0xFE000000 + pid, pvTeb = 0x7FFD0000,
       sti = Some \<lparr> ClientId = \<lparr> UniqueThread = pid + 4 \<rparr> \<rparr>,
       spi = Some (sample_process pid nm) \<rparr>"

definition sample_hook :: "nat \<Rightarrow> HANDLE \<Rightarrow> c_int \<Rightarrow> hook" where
  "sample_hook k pid ty =
     \<lparr> hook_key = k,
       entry = \<lparr> pHead = 0xFF000000 + of_nat k, bFlags = 0 \<rparr>,
       object = \<lparr> head = \<lparr> head_h = 0x10000 + of_nat k, cLockObj = 1 \<rparr>,
                  rpdesk1 = 0xFD000000, pSelf = 0xFF000000 + of_nat k, phkNext = 0,
                  iHook = ty, offPfn = 0x1000, flags = 0, ihmod = 1, rpdesk2 = 0xFD000000 \<rparr>,
       owner = Some (sample_gui pid ''notepad.exe''),
       origin = Some (sample_gui pid ''notepad.exe''),
       target = None \<rparr>"

definition unknown_gui :: gui where
  "unknown_gui =
     \<lparr> pvWin32ThreadInfo = 0, pvTeb = 0, sti = None,
       spi = Some \<lparr> UniqueProcessId = 0,
                    ImageName = \<lparr> Length = 18, MaximumLength = 20,
                                  Buffer = Some (L ''<unknown>'') \<rparr> \<rparr> \<rparr>"

definition with_entry_flags :: "BYTE \<Rightarrow> hook \<Rightarrow> hook" where
  "with_entry_flags f hk = hk \<lparr> entry := (entry hk) \<lparr> bFlags := f \<rparr> \<rparr>"

definition ownerless :: "hook \<Rightarrow> hook" where
  "ownerless hk = hk \<lparr> owner := None \<rparr>"

text \<open>A context whose process has the image name \<open>w\<close>, counted in full.\<close>

definition named_gui :: "wstring \<Rightarrow> gui" where
  "named_gui w =
     \<lparr> pvWin32ThreadInfo = 0xFE000004, pvTeb = 0x7FFD0000,
       sti = Some \<lparr> ClientId = \<lparr> UniqueThread = 8 \<rparr> \<rparr>,
       spi = Some \<lparr> UniqueProcessId = 4,
                    ImageName = \<lparr> Length = of_nat (2 * length w),
                                  MaximumLength = of_nat (2 * length w + 2),
                                  Buffer = Some w \<rparr> \<rparr> \<rparr>"

text \<open>The sentinel's values in every position but the thread id.\<close>

definition unknown_gui_thread_5 :: gui where
  "unknown_gui_thread_5 = unknown_gui \<lparr> sti := Some \<lparr> ClientId = \<lparr> UniqueThread = 5 \<rparr> \<rparr> \<rparr>"

definition sample_desktop :: desktop_item where
  "sample_desktop = \<lparr> desktop_address = 0xFD000000, pwszDesktopName = L ''Default'' \<rparr>"

definition sample_item :: "hook list \<Rightarrow> desktop_hook_item" where
  "sample_item hs = \<lparr> desktop = Some sample_desktop, hooks = hs, hook_max = 64 \<rparr>"


section \<open>Proofs\<close>

subsection \<open>Wide strings\<close>

lemma wchar_at_simps [simp]: "wchar_at [] = 0" "wchar_at (c # s) = c"
  by (simp_all add: wchar_at_def)

lemma wcsncmp_refl: "wcsncmp s s n = 0"
  by (induction n arbitrary: s) auto

lemma wcsncmp_zero_iff: "wcsncmp s t n = 0 \<longleftrightarrow> take n (cstr s) = take n (cstr t)"
proof (induction n arbitrary: s t)
  case 0
  then show ?case by simp
next
  case (Suc n)
  show ?case
    by (cases s; cases t) (auto simp: cstr_def Suc word_gt_0)
qed

lemma upper_case_shift_nonzero:
  fixes c :: WCHAR
  assumes "c \<le> 0x5A"
  shows "c + 0x20 \<noteq> 0"
proof -
  from assms have "unat c \<le> 90"
    by (simp add: word_le_nat_alt)
  then have "unat c + unat (0x20 :: WCHAR) < 2 ^ LENGTH(16)"
    by simp
  then have "unat (c + 0x20) = unat c + unat (0x20 :: WCHAR)"
    by (simp only: unat_add_lem)
  then have "unat (c + 0x20) \<noteq> 0"
    by simp
  then show ?thesis
    by (metis unat_0)
qed

lemma towlower_zero: "towlower c = 0 \<longleftrightarrow> c = 0"
  by (auto simp: towlower_def upper_case_shift_nonzero)

lemma towlower_0 [simp]: "towlower 0 = 0"
  by (simp add: towlower_def)

lemma wcsicmp_zero: "wcsicmp s t = 0 \<longleftrightarrow> same_name_ignoring_case s t"
  by (induction s t rule: wcsicmp.induct)
     (auto simp: same_name_ignoring_case_def cstr_def towlower_zero)

lemma L_unknown: "L ''<unknown>'' = [60, 117, 110, 107, 110, 111, 119, 110, 62]"
  by (simp add: L_def)

subsection \<open>The filter evaluator\<close>

lemma match_opt_gui_name_spec:
  "match_opt_gui_name go nm =
     (case context_name go of None \<Rightarrow> False | Some buf \<Rightarrow> same_name_ignoring_case buf nm)"
  by (simp add: match_opt_gui_name_def match_gui_process_name_def context_name_def wcsicmp_zero
      split: option.splits)

lemma match_opt_gui_pid_spec:
  "pid \<noteq> 0 \<Longrightarrow> match_opt_gui_pid go pid = Inr (context_pid go = Some pid)"
  by (auto simp add: match_opt_gui_pid_def match_gui_process_pid_def context_pid_def
      split: option.splits)

lemma match_hook_process_pid_spec:
  "pid \<noteq> 0 \<Longrightarrow> match_hook_process_pid hk pid = Inr (hook_has_pid hk pid)"
  by (auto simp add: match_hook_process_pid_def match_opt_gui_pid_spec hook_has_pid_def
      split: bool.splits)

lemma item_match_spec:
  "item_name item = None \<longrightarrow> item_id item \<noteq> 0 \<Longrightarrow>
   (case item_name item of
      Some nm \<Rightarrow> Inr (match_hook_process_name hk nm)
    | None \<Rightarrow> match_hook_process_pid hk (item_id item)) =
   Inr (context_matches (owner hk) item
        \<or> context_matches (origin hk) item
        \<or> context_matches (target hk) item)"
  by (cases "item_name item")
     (simp_all add: match_hook_process_pid_spec hook_has_pid_def context_matches_def
        match_hook_process_name_def match_opt_gui_name_spec)

lemma prog_loop_spec:
  "list_all (\<lambda>item. item_name item = None \<longrightarrow> item_id item \<noteq> 0) its \<Longrightarrow>
   prog_loop hk its =
     Inr (list_ex (\<lambda>item. context_matches (owner hk) item
                     \<or> context_matches (origin hk) item
                     \<or> context_matches (target hk) item) its)"
  by (induction its) (simp_all add: item_match_spec split: bool.splits)

lemma hook_loop_spec:
  "hook_loop hk its = list_ex (\<lambda>item. item_id item = iHook (object hk)) its"
  by (induction its) auto

lemma hooklist_wanted_spec:
  "hooklist_wanted cfg hk = passes (hook_rule_mode cfg) (hook_rule_matches cfg hk)"
  by (auto simp: hooklist_wanted_def passes_def hook_rule_mode_def hook_rule_matches_def
      hook_loop_spec Let_def)

lemma is_hook_wanted_spec:
  "pids_nonzero cfg \<Longrightarrow> is_hook_wanted cfg hk = Inr (wanted_spec cfg hk)"
  by (auto simp: is_hook_wanted_def pids_nonzero_def prog_loop_spec hooklist_wanted_spec
      wanted_spec_def passes_def program_rule_mode_def program_rule_matches_def)

lemma scenario_pids_nonzero: "pids_nonzero exclude_100_include_2"
  by (simp add: pids_nonzero_def exclude_100_include_2_def)

lemma scenario_wanted:
  "wanted_spec exclude_100_include_2 hk \<longleftrightarrow> \<not> hook_has_pid hk 100 \<and> iHook (object hk) = 2"
  by (auto simp: wanted_spec_def exclude_100_include_2_def passes_def program_rule_mode_def
      hook_rule_mode_def program_rule_matches_def hook_rule_matches_def context_matches_def
      hook_has_pid_def)

text \<open>
  C2. When no pid entry of the program rule is zero, \<^verbatim>\<open>is_hook_wanted\<close> returns, and it
  returns true exactly when the record passes the program rule and the hook-type rule:
  a disabled rule passes, an include rule passes the matching records, an exclude rule
  the others; the program rule matches when one of owner, origin and target matches one
  entry, by name without regard to case or by pid, and the hook-type rule when the type
  id is one of the entries. Under "exclude pid=100, include type=2" a record with pid 100
  is not wanted, a record without pid 100 and of type 2 is wanted, and a record of
  another type is not wanted.
\<close>

theorem is_hook_wanted_filter:
  "(pids_nonzero cfg \<longrightarrow> is_hook_wanted cfg hk = Inr (wanted_spec cfg hk))
   \<and> (hook_has_pid hk 100 \<longrightarrow> is_hook_wanted exclude_100_include_2 hk = Inr False)
   \<and> (\<not> hook_has_pid hk 100 \<and> iHook (object hk) = 2
        \<longrightarrow> is_hook_wanted exclude_100_include_2 hk = Inr True)
   \<and> (iHook (object hk) \<noteq> 2 \<longrightarrow> is_hook_wanted exclude_100_include_2 hk = Inr False)"
  by (simp add: is_hook_wanted_spec scenario_pids_nonzero scenario_wanted)

lemma sample_hook_has_pid: "hook_has_pid (sample_hook k pid ty) q \<longleftrightarrow> pid = q"
  by (simp add: hook_has_pid_def sample_hook_def context_pid_def sample_gui_def
      sample_process_def)

lemma sample_hook_iHook: "iHook (object (sample_hook k pid ty)) = ty"
  by (simp add: sample_hook_def)

theorem is_hook_wanted_filter_witness:
  "pids_nonzero exclude_100_include_2
   \<and> hook_has_pid (sample_hook 1 100 2) 100
   \<and> is_hook_wanted exclude_100_include_2 (sample_hook 1 100 2) = Inr False
   \<and> \<not> hook_has_pid (sample_hook 1 200 2) 100
   \<and> is_hook_wanted exclude_100_include_2 (sample_hook 1 200 2) = Inr True
   \<and> is_hook_wanted exclude_100_include_2 (sample_hook 1 200 3) = Inr False
   \<and> wanted_spec exclude_100_include_2 (sample_hook 1 200 2)"
  using is_hook_wanted_filter [of exclude_100_include_2 "sample_hook 1 100 2"]
    is_hook_wanted_filter [of exclude_100_include_2 "sample_hook 1 200 2"]
    is_hook_wanted_filter [of exclude_100_include_2 "sample_hook 1 200 3"]
  by (auto simp: scenario_pids_nonzero sample_hook_has_pid sample_hook_iHook)


subsection \<open>The thread context comparator\<close>


lemma empty_stuff_fields:
  "empty_stuff =
     \<lparr> stuff_pvWin32ThreadInfo = 0, stuff_pvTeb = 0, stuff_tid = 0, stuff_pid = 0,
       stuff_Length = 18, stuff_MaximumLength = 20, stuff_Buffer = L ''<unknown>'' \<rparr>"
  by (simp add: empty_stuff_def Let_def L_unknown)

lemma fill_stuff_fields:
  "stuff_pvWin32ThreadInfo (fill_stuff go) = thread_info_address go"
  "stuff_pvTeb (fill_stuff go) = thread_local_address go"
  "stuff_tid (fill_stuff go) = thread_id go"
  "stuff_pid (fill_stuff go) = process_id go"
  "stuff_Length (fill_stuff go) = image_name_length go"
  "stuff_Buffer (fill_stuff go) = image_name_chars go"
  by (simp_all add: fill_stuff_def empty_stuff_fields thread_info_address_def
      thread_local_address_def thread_id_def process_id_def context_pid_def
      image_name_length_def image_name_chars_def context_name_def Let_def
      split: option.splits)

lemma same_stuff_spec:
  "same_stuff (fill_stuff a) (fill_stuff b) \<longleftrightarrow>
     thread_info_address a = thread_info_address b
     \<and> thread_local_address a = thread_local_address b
     \<and> thread_id a = thread_id b
     \<and> process_id a = process_id b
     \<and> image_name_length a = image_name_length b
     \<and> image_name_read (unat (image_name_length a)) a
         = image_name_read (unat (image_name_length a)) b"
  by (simp add: same_stuff_def fill_stuff_fields wcsncmp_zero_iff image_name_read_def)

lemma wf_image_name_read:
  assumes "wf_image_name go"
  shows "image_name_read (unat (image_name_length go)) go = image_name_chars go"
    and "image_name_bytes go = image_name_chars go"
proof -
  from assms have nz: "0 \<notin> set (image_name_chars go)"
    and len: "unat (image_name_length go) = 2 * length (image_name_chars go)"
    by (simp_all add: wf_image_name_def)
  from nz have "cstr (image_name_chars go) = image_name_chars go"
    by (simp add: cstr_def) metis
  with len show "image_name_read (unat (image_name_length go)) go = image_name_chars go"
    by (simp add: image_name_read_def)
  from len show "image_name_bytes go = image_name_chars go"
    by (simp add: image_name_bytes_def)
qed

lemma same_stuff_wf:
  assumes "wf_image_name a" and "wf_image_name b"
  shows "same_stuff (fill_stuff a) (fill_stuff b) \<longleftrightarrow>
     thread_info_address a = thread_info_address b
     \<and> thread_local_address a = thread_local_address b
     \<and> thread_id a = thread_id b
     \<and> process_id a = process_id b
     \<and> image_name_length a = image_name_length b
     \<and> image_name_bytes a = image_name_bytes b"
proof (cases "image_name_length a = image_name_length b")
  case True
  have ra: "image_name_read (unat (image_name_length a)) a = image_name_chars a"
    by (rule wf_image_name_read(1) [OF assms(1)])
  have rb: "image_name_read (unat (image_name_length a)) b = image_name_chars b"
    unfolding True by (rule wf_image_name_read(1) [OF assms(2)])
  have ba: "image_name_bytes a = image_name_chars a"
    by (rule wf_image_name_read(2) [OF assms(1)])
  have bb: "image_name_bytes b = image_name_chars b"
    by (rule wf_image_name_read(2) [OF assms(2)])
  show ?thesis
    unfolding same_stuff_spec ra rb ba bb ..
next
  case False
  then show ?thesis by (simp add: same_stuff_spec)
qed

lemma absent_fields:
  "thread_info_address None = 0" "thread_local_address None = 0" "thread_id None = 0"
  "process_id None = 0" "image_name_length None = 18"
  "image_name_chars None = L ''<unknown>''"
  by (simp_all add: thread_info_address_def thread_local_address_def thread_id_def
      process_id_def context_pid_def image_name_length_def image_name_chars_def
      context_name_def)

lemma looks_unknown_same:
  "looks_unknown g \<Longrightarrow> same_stuff (fill_stuff None) (fill_stuff (Some g))"
  by (simp add: same_stuff_spec looks_unknown_def absent_fields image_name_read_def)

lemma resolvable_differs:
  "resolvable g \<Longrightarrow> \<not> same_stuff (fill_stuff None) (fill_stuff (Some g))"
  by (auto simp: same_stuff_spec resolvable_def absent_fields process_id_def context_pid_def
      split: option.splits)

text \<open>
  C7, as amended. \<^verbatim>\<open>print_diff_gui\<close> reports no change exactly when the two contexts
  agree on the thread-info address, the thread-local address, the thread id, the process
  id and the length of the image name, and the two image names agree in what \<^verbatim>\<open>wcsncmp\<close>
  reads of them: the characters before the first NUL, at most \<open>Length\<close> of them. For
  image names that are well-formed counted strings this is the equality of their bytes.
  It prints nothing exactly when it reports no change. An absent context has the values
  of the sentinel, so an absent context against a context with null addresses, zero
  thread id, zero process id and the image name "<unknown>" is no change, and an absent
  context against a context with a resolved process is a change.
\<close>

theorem print_diff_gui_compares:
  "(print_diff_gui a b (Some nm) = ([], Inr False) \<or> snd (print_diff_gui a b (Some nm)) = Inr True)
   \<and> (snd (print_diff_gui a b (Some nm)) = Inr False \<longleftrightarrow>
         thread_info_address a = thread_info_address b
         \<and> thread_local_address a = thread_local_address b
         \<and> thread_id a = thread_id b
         \<and> process_id a = process_id b
         \<and> image_name_length a = image_name_length b
         \<and> image_name_read (unat (image_name_length a)) a
             = image_name_read (unat (image_name_length a)) b)
   \<and> (wf_image_name a \<and> wf_image_name b \<longrightarrow>
         (snd (print_diff_gui a b (Some nm)) = Inr False \<longleftrightarrow>
            thread_info_address a = thread_info_address b
            \<and> thread_local_address a = thread_local_address b
            \<and> thread_id a = thread_id b
            \<and> process_id a = process_id b
            \<and> image_name_length a = image_name_length b
            \<and> image_name_bytes a = image_name_bytes b))
   \<and> (fst (print_diff_gui a b (Some nm)) = [] \<longleftrightarrow> snd (print_diff_gui a b (Some nm)) = Inr False)
   \<and> thread_info_address None = 0 \<and> thread_local_address None = 0
   \<and> thread_id None = 0 \<and> process_id None = 0
   \<and> image_name_length None = 18 \<and> image_name_chars None = L ''<unknown>''
   \<and> (looks_unknown g \<longrightarrow> print_diff_gui None (Some g) (Some nm) = ([], Inr False))
   \<and> (resolvable g \<longrightarrow> snd (print_diff_gui None (Some g) (Some nm)) = Inr True
                       \<and> fst (print_diff_gui None (Some g) (Some nm)) \<noteq> [])"
proof -
  have run: "print_diff_gui x y (Some nm) =
      (if same_stuff (fill_stuff x) (fill_stuff y) then ([], Inr False)
       else ([GuiChanged nm, GuiLine (''Old '' @ nm) x, GuiLine (''New '' @ nm) y], Inr True))"
    for x y
    by (simp add: print_diff_gui_def)
  have 1: "print_diff_gui a b (Some nm) = ([], Inr False)
            \<or> snd (print_diff_gui a b (Some nm)) = Inr True"
    by (simp add: run)
  have 2: "snd (print_diff_gui a b (Some nm)) = Inr False
            \<longleftrightarrow> same_stuff (fill_stuff a) (fill_stuff b)"
    by (simp add: run)
  have 3: "fst (print_diff_gui a b (Some nm)) = []
            \<longleftrightarrow> snd (print_diff_gui a b (Some nm)) = Inr False"
    by (simp add: run)
  have 4: "looks_unknown g \<longrightarrow> print_diff_gui None (Some g) (Some nm) = ([], Inr False)"
    by (simp add: run looks_unknown_same)
  have 5: "resolvable g \<longrightarrow> snd (print_diff_gui None (Some g) (Some nm)) = Inr True
                       \<and> fst (print_diff_gui None (Some g) (Some nm)) \<noteq> []"
    by (simp add: run resolvable_differs)
  show ?thesis
    using 1 3 4 5 same_stuff_wf [of a b]
    unfolding 2 same_stuff_spec [symmetric]
    by (simp add: absent_fields)
qed

lemma sample_gui_wf: "wf_image_name (Some (sample_gui 4 ''a.exe''))"
  by (simp add: wf_image_name_def image_name_chars_def image_name_length_def context_name_def
      sample_gui_def sample_process_def L_def)

lemma absent_wf: "wf_image_name None"
  by (simp add: wf_image_name_def absent_fields L_unknown)

lemma sample_gui_resolvable: "resolvable (sample_gui 4 ''a.exe'')"
  by (simp add: resolvable_def sample_gui_def sample_process_def)

lemma unknown_gui_looks_unknown: "looks_unknown unknown_gui"
  by (simp add: looks_unknown_def unknown_gui_def thread_info_address_def
      thread_local_address_def thread_id_def process_id_def context_pid_def
      image_name_length_def image_name_chars_def context_name_def)

theorem print_diff_gui_compares_witness:
  "wf_image_name None \<and> wf_image_name (Some (sample_gui 4 ''a.exe''))
   \<and> looks_unknown unknown_gui \<and> resolvable (sample_gui 4 ''a.exe'')
   \<and> print_diff_gui None (Some unknown_gui) (Some ''owner'') = ([], Inr False)
   \<and> snd (print_diff_gui None (Some (sample_gui 4 ''a.exe'')) (Some ''owner'')) = Inr True
   \<and> \<not> (thread_info_address None = thread_info_address (Some (sample_gui 4 ''a.exe''))
          \<and> thread_local_address None = thread_local_address (Some (sample_gui 4 ''a.exe''))
          \<and> thread_id None = thread_id (Some (sample_gui 4 ''a.exe''))
          \<and> process_id None = process_id (Some (sample_gui 4 ''a.exe''))
          \<and> image_name_length None = image_name_length (Some (sample_gui 4 ''a.exe''))
          \<and> image_name_bytes None = image_name_bytes (Some (sample_gui 4 ''a.exe'')))"
proof -
  note w1 = absent_wf and w2 = sample_gui_wf and r = sample_gui_resolvable
    and u = unknown_gui_looks_unknown
  have A: "print_diff_gui None (Some unknown_gui) (Some ''owner'') = ([], Inr False)"
    using print_diff_gui_compares [of None None "''owner''" unknown_gui] u by blast
  have B: "snd (print_diff_gui None (Some (sample_gui 4 ''a.exe'')) (Some ''owner'')) = Inr True"
    using print_diff_gui_compares [of None None "''owner''" "sample_gui 4 ''a.exe''"] r
    by blast
  have C: "\<not> (thread_info_address None = thread_info_address (Some (sample_gui 4 ''a.exe''))
          \<and> thread_local_address None = thread_local_address (Some (sample_gui 4 ''a.exe''))
          \<and> thread_id None = thread_id (Some (sample_gui 4 ''a.exe''))
          \<and> process_id None = process_id (Some (sample_gui 4 ''a.exe''))
          \<and> image_name_length None = image_name_length (Some (sample_gui 4 ''a.exe''))
          \<and> image_name_bytes None = image_name_bytes (Some (sample_gui 4 ''a.exe'')))"
    using print_diff_gui_compares
      [of None "Some (sample_gui 4 ''a.exe'')" "''owner''" unknown_gui] w1 w2 B
    by auto
  from w1 w2 u r A B C show ?thesis
    by blast
qed

text \<open>
  C7, as stated, fails twice. Two contexts that differ only in the third character of
  their image names, behind a NUL, are reported as no change although the bytes of the
  names differ. And an absent context against a context with the image name
  "<unknown>", zero process id and null addresses is reported as a change when the
  thread id of the context is not zero.
\<close>

theorem print_diff_gui_compares_counterexample:
  "print_diff_gui (Some (named_gui [97, 0, 98])) (Some (named_gui [97, 0, 99])) (Some ''owner'')
     = ([], Inr False)
   \<and> image_name_length (Some (named_gui [97, 0, 98])) = 6
   \<and> image_name_length (Some (named_gui [97, 0, 99])) = 6
   \<and> image_name_bytes (Some (named_gui [97, 0, 98])) = [97, 0, 98]
   \<and> image_name_bytes (Some (named_gui [97, 0, 99])) = [97, 0, 99]
   \<and> image_name_chars (Some unknown_gui_thread_5) = L ''<unknown>''
   \<and> process_id (Some unknown_gui_thread_5) = 0
   \<and> thread_info_address (Some unknown_gui_thread_5) = 0
   \<and> thread_local_address (Some unknown_gui_thread_5) = 0
   \<and> print_diff_gui None (Some unknown_gui_thread_5) (Some ''owner'')
       = ([GuiChanged ''owner'', GuiLine ''Old owner'' None,
           GuiLine ''New owner'' (Some unknown_gui_thread_5)], Inr True)"
  by (simp add: print_diff_gui_def same_stuff_spec image_name_read_def cstr_def
      image_name_bytes_def image_name_length_def image_name_chars_def context_name_def
      thread_info_address_def thread_local_address_def thread_id_def process_id_def
      context_pid_def named_gui_def unknown_gui_thread_5_def unknown_gui_def)

subsection \<open>The hook record comparator\<close>

lemma print_diff_gui_null_threadname: "print_diff_gui x y None = ([], Inl FAIL_IF_failed)"
  by (simp add: print_diff_gui_def)

lemma print_diff_hook_run:
  "print_diff_hook a b dn =
     (entry_flags_block a b dn,
      Some (case owner b of None \<Rightarrow> FAIL_IF_failed | Some g \<Rightarrow> Undefined_read))"
  by (simp add: print_diff_hook_def prints_def print_diff_gui_as_called_def emit_def
      split: option.splits)

lemma entry_flags_block_same: "bFlags (entry a) = bFlags (entry b) \<Longrightarrow> entry_flags_block a b dn = []"
  by (simp add: entry_flags_block_def)

text \<open>
  C8. Two hook records with the same value in every field should make
  \<^verbatim>\<open>print_diff_hook\<close> return with nothing printed. It prints nothing, but it does not
  return: with no owner thread the first call of \<^verbatim>\<open>print_diff_gui\<close> ends the process in
  \<^verbatim>\<open>FAIL_IF\<close>, and with an owner thread the call reads the string literal as a thread.
\<close>

theorem identical_hooks_end_the_process:
  "print_diff_hook (ownerless (sample_hook 1 100 2)) (ownerless (sample_hook 1 100 2))
     (L ''Default'') = ([], Some FAIL_IF_failed)
   \<and> print_diff_hook (sample_hook 1 100 2) (sample_hook 1 100 2) (L ''Default'')
       = ([], Some Undefined_read)"
  by (simp add: print_diff_hook_run entry_flags_block_same ownerless_def sample_hook_def)




lemma entry_flags_lines:
  "EntryFlagsLine lbl t \<in> set (entry_flags_block a b dn) \<longleftrightarrow>
     bFlags (entry a) \<noteq> bFlags (entry b) \<and> t \<noteq> 0
     \<and> (lbl = ''Flags same'' \<and> t = flags_same (bFlags (entry a)) (bFlags (entry b))
        \<or> lbl = ''Flags removed'' \<and> t = flags_removed (bFlags (entry a)) (bFlags (entry b))
        \<or> lbl = ''Flags added'' \<and> t = flags_added (bFlags (entry a)) (bFlags (entry b)))"
  by (auto simp: entry_flags_block_def print_hook_notice_begin_def Let_def
        flags_same_def flags_removed_def flags_added_def)

lemma hook_flags_lines:
  "HookFlagsLine lbl t \<in> set (hook_flags_block a b) \<longleftrightarrow>
     flags (object a) \<noteq> flags (object b) \<and> t \<noteq> 0
     \<and> (lbl = ''Flags same'' \<and> t = flags_same (flags (object a)) (flags (object b))
        \<or> lbl = ''Flags removed'' \<and> t = flags_removed (flags (object a)) (flags (object b))
        \<or> lbl = ''Flags added'' \<and> t = flags_added (flags (object a)) (flags (object b)))"
  by (auto simp: hook_flags_block_def Let_def flags_same_def flags_removed_def flags_added_def)

lemma no_hook_flags_in_entry_block:
  "HookFlagsLine lbl t \<notin> set (entry_flags_block a b dn)"
  by (auto simp: entry_flags_block_def print_hook_notice_begin_def Let_def)

lemma flags_partition:
  "flags_same A B OR flags_removed A B OR flags_added A B = A OR B"
  "flags_removed A B AND flags_added A B = 0"
  by (rule bit_eqI, auto simp: flags_same_def flags_removed_def flags_added_def
        bit_and_iff bit_or_iff bit_not_iff)+

text \<open>
  C9. The three parts of a flags change, same \<open>A AND B\<close>, removed \<open>A AND NOT B\<close> and
  added \<open>B AND NOT A\<close>, have the union \<open>A OR B\<close>, and the removed and the added part share
  no bit. \<^verbatim>\<open>print_diff_hook\<close> prints a part of the HANDLEENTRY flags exactly when those
  flags changed and the part is not zero, and the value printed is that part. The
  statements that print the parts of the HOOK flags do the same with those flags. As
  the function is written they lie behind the call that ends the run, so the function
  prints no part of the HOOK flags at all.
\<close>

theorem flags_three_way_decomposition:
  "flags_same A B OR flags_removed A B OR flags_added A B = A OR B
   \<and> flags_removed A B AND flags_added A B = 0
   \<and> (EntryFlagsLine lbl t \<in> set (fst (print_diff_hook a b dn)) \<longleftrightarrow>
        bFlags (entry a) \<noteq> bFlags (entry b) \<and> t \<noteq> 0
        \<and> (lbl = ''Flags same'' \<and> t = flags_same (bFlags (entry a)) (bFlags (entry b))
           \<or> lbl = ''Flags removed'' \<and> t = flags_removed (bFlags (entry a)) (bFlags (entry b))
           \<or> lbl = ''Flags added'' \<and> t = flags_added (bFlags (entry a)) (bFlags (entry b))))
   \<and> (HookFlagsLine lbl t \<in> set (hook_flags_block a b) \<longleftrightarrow>
        flags (object a) \<noteq> flags (object b) \<and> t \<noteq> 0
        \<and> (lbl = ''Flags same'' \<and> t = flags_same (flags (object a)) (flags (object b))
           \<or> lbl = ''Flags removed'' \<and> t = flags_removed (flags (object a)) (flags (object b))
           \<or> lbl = ''Flags added'' \<and> t = flags_added (flags (object a)) (flags (object b))))
   \<and> HookFlagsLine lbl t \<notin> set (fst (print_diff_hook a b dn))"
  using entry_flags_lines [of lbl t a b dn] hook_flags_lines [of lbl t a b]
    no_hook_flags_in_entry_block [of lbl t a b dn]
  by (simp add: flags_partition print_diff_hook_run)

theorem flags_three_way_decomposition_witness:
  "EntryFlagsLine ''Flags same'' 4
     \<in> set (fst (print_diff_hook (with_entry_flags 5 (sample_hook 1 100 2))
              (with_entry_flags 6 (sample_hook 1 100 2)) (L ''Default'')))
   \<and> flags_same 5 6 = 4 \<and> flags_removed 5 6 = 1 \<and> flags_added 5 6 = 2
   \<and> EntryFlagsLine ''Flags removed'' 0
     \<notin> set (fst (print_diff_hook (with_entry_flags 4 (sample_hook 1 100 2))
              (with_entry_flags 6 (sample_hook 1 100 2)) (L ''Default'')))"
  using flags_three_way_decomposition [of 5 6 "''Flags same''" 4
      "with_entry_flags 5 (sample_hook 1 100 2)" "with_entry_flags 6 (sample_hook 1 100 2)"
      "L ''Default''"]
    flags_three_way_decomposition [of 5 6 "''Flags removed''" 0
      "with_entry_flags 4 (sample_hook 1 100 2)" "with_entry_flags 6 (sample_hook 1 100 2)"
      "L ''Default''"]
  by (simp add: with_entry_flags_def sample_hook_def flags_same_def flags_removed_def
      flags_added_def)

subsection \<open>The preconditions of the desktop differ\<close>

text \<open>
  C10. Two desktop hook items over the same desktop whose declared capacities
  \<^verbatim>\<open>hook_max\<close> differ make \<^verbatim>\<open>print_diff_desktop_hook_items\<close> fail before it compares or
  prints anything.
\<close>

theorem hook_max_mismatch_is_fatal:
  assumes "desktop a = Some da" and "desktop b = Some db"
    and "desktop_address da = desktop_address db"
    and "hook_max a \<noteq> hook_max b"
  shows "print_diff_desktop_hook_items cfg a b = ([], Some FAIL_IF_failed)"
  using assms by (simp add: print_diff_desktop_hook_items_def)

theorem hook_max_mismatch_is_fatal_witness:
  "desktop (sample_item [sample_hook 1 100 2]) = Some sample_desktop
   \<and> hook_max (sample_item [sample_hook 1 100 2])
       \<noteq> hook_max ((sample_item [sample_hook 1 100 2]) \<lparr> hook_max := 65 \<rparr>)
   \<and> print_diff_desktop_hook_items exclude_100_include_2 (sample_item [sample_hook 1 100 2])
       ((sample_item [sample_hook 1 100 2]) \<lparr> hook_max := 65 \<rparr>) = ([], Some FAIL_IF_failed)"
  using hook_max_mismatch_is_fatal [of "sample_item [sample_hook 1 100 2]" sample_desktop
      "(sample_item [sample_hook 1 100 2]) \<lparr> hook_max := 65 \<rparr>" sample_desktop
      exclude_100_include_2]
  by (simp add: sample_item_def)


subsection \<open>The loops of the desktop differ\<close>

lemma removed_while_drop:
  "removed_while ha dn i = concat (map (\<lambda>x. notice x dn HOOK_REMOVED) (drop i ha))"
proof (induction "length ha - i" arbitrary: i)
  case 0
  then show ?case
    by (subst removed_while.simps) simp
next
  case (Suc n)
  then have "i < length ha" and "n = length ha - Suc i"
    by simp_all
  with Suc.hyps(1) [of "Suc i"] show ?case
    by (subst removed_while.simps) (simp add: Cons_nth_drop_Suc [symmetric] notice_def)
qed

lemma added_while_drop:
  "added_while hb dn j = concat (map (\<lambda>y. notice y dn HOOK_ADDED) (drop j hb))"
proof (induction "length hb - j" arbitrary: j)
  case 0
  then show ?case
    by (subst added_while.simps) simp
next
  case (Suc n)
  then have "j < length hb" and "n = length hb - Suc j"
    by simp_all
  with Suc.hyps(1) [of "Suc j"] show ?case
    by (subst added_while.simps) (simp add: Cons_nth_drop_Suc [symmetric] notice_def)
qed

lemma diff_while_stop:
  "\<not> (i < length ha \<and> j < length hb) \<Longrightarrow> diff_while cfg ha hb dn i j = ([], Inr (i, j))"
  by (subst diff_while.simps) auto

lemma diff_while_removed:
  "i < length ha \<Longrightarrow> j < length hb \<Longrightarrow> hook_key (ha ! i) < hook_key (hb ! j) \<Longrightarrow>
   diff_while cfg ha hb dn i j =
     (case match cfg (ha ! i) of
        Inl e \<Rightarrow> ([], Inl e)
      | Inr m \<Rightarrow> emit (if m then notice (ha ! i) dn HOOK_REMOVED else [])
                   (diff_while cfg ha hb dn (i + 1) j))"
  unfolding notice_def by (subst diff_while.simps) (simp add: compare_hook_def)

lemma diff_while_added:
  "i < length ha \<Longrightarrow> j < length hb \<Longrightarrow> hook_key (hb ! j) < hook_key (ha ! i) \<Longrightarrow>
   diff_while cfg ha hb dn i j =
     (case match cfg (hb ! j) of
        Inl e \<Rightarrow> ([], Inl e)
      | Inr m \<Rightarrow> emit (if m then notice (hb ! j) dn HOOK_ADDED else [])
                   (diff_while cfg ha hb dn i (j + 1)))"
  unfolding notice_def by (subst diff_while.simps) (simp add: compare_hook_def)

lemma diff_while_compared:
  "i < length ha \<Longrightarrow> j < length hb \<Longrightarrow> hook_key (ha ! i) = hook_key (hb ! j) \<Longrightarrow>
   diff_while cfg ha hb dn i j =
     (entry_flags_block (ha ! i) (hb ! j) dn,
      Inl (case owner (hb ! j) of None \<Rightarrow> FAIL_IF_failed | Some g \<Rightarrow> Undefined_read))"
  by (subst diff_while.simps) (simp add: compare_hook_def print_diff_hook_run)

lemma sample_hook_key: "hook_key (sample_hook k pid ty) = k"
  by (simp add: sample_hook_def)

lemma sample_wanted:
  "wanted_spec exclude_100_include_2 (sample_hook k pid ty) \<longleftrightarrow> pid \<noteq> 100 \<and> ty = 2"
  by (simp add: scenario_wanted sample_hook_has_pid sample_hook_iHook)

subsection \<open>The gate of the merge loop\<close>

lemma removed_title_sources:
  "NoticeTitle ''Removed'' p n \<in> set (notice hk dn d)
     \<longleftrightarrow> d = HOOK_REMOVED \<and> p = pHead (entry hk) \<and> n = dn"
  "NoticeTitle ''Added'' p n \<in> set (notice hk dn d)
     \<longleftrightarrow> d = HOOK_ADDED \<and> p = pHead (entry hk) \<and> n = dn"
  by (cases d; auto simp: notice_def print_hook_notice_begin_def print_hook_notice_end_def
        diffname_def)+

lemma no_removed_added_title_in_entry_block:
  "NoticeTitle ''Removed'' p n \<notin> set (entry_flags_block a b dn)"
  "NoticeTitle ''Added'' p n \<notin> set (entry_flags_block a b dn)"
  by (auto simp: entry_flags_block_def print_hook_notice_begin_def diffname_def Let_def)

lemma removed_title_gated:
  "NoticeTitle ''Removed'' p n \<in> set (fst (diff_while cfg ha hb dn i j)) \<Longrightarrow>
   \<exists>k<length ha. i \<le> k \<and> p = pHead (entry (ha ! k)) \<and> n = dn
      \<and> is_hook_wanted cfg (ha ! k) = Inr True"
proof (induction "(length ha - i) + (length hb - j)" arbitrary: i j rule: less_induct)
  case less
  show ?case
  proof (cases "i < length ha \<and> j < length hb")
    case False
    with less.prems show ?thesis
      by (simp add: diff_while_stop)
  next
    case True
    then have i: "i < length ha" and j: "j < length hb" by simp_all
    consider (rem) "hook_key (ha ! i) < hook_key (hb ! j)"
      | (add) "hook_key (hb ! j) < hook_key (ha ! i)"
      | (both) "hook_key (ha ! i) = hook_key (hb ! j)"
      by linarith
    then show ?thesis
    proof cases
      case rem
      have m: "length ha - Suc i + (length hb - j) < length ha - i + (length hb - j)"
        using i by simp
      from less.prems consider
        (here) "is_hook_wanted cfg (ha ! i) = Inr True" "p = pHead (entry (ha ! i))" "n = dn"
        | (later) "NoticeTitle ''Removed'' p n \<in> set (fst (diff_while cfg ha hb dn (Suc i) j))"
        by (auto simp: diff_while_removed [OF i j rem] match_def emit_def removed_title_sources
            split: sum.splits if_splits)
      then show ?thesis
      proof cases
        case here
        with i show ?thesis by auto
      next
        case later
        from less.hyps [OF m later] show ?thesis
          using Suc_leD by blast
      qed
    next
      case add
      have m: "length ha - i + (length hb - Suc j) < length ha - i + (length hb - j)"
        using j by simp
      from less.prems have
        "NoticeTitle ''Removed'' p n \<in> set (fst (diff_while cfg ha hb dn i (Suc j)))"
        by (auto simp: diff_while_added [OF i j add] match_def emit_def removed_title_sources
            split: sum.splits if_splits)
      from less.hyps [OF m this] show ?thesis .
    next
      case both
      from less.prems show ?thesis
        by (simp add: diff_while_compared [OF i j both] no_removed_added_title_in_entry_block)
    qed
  qed
qed

lemma added_title_gated:
  "NoticeTitle ''Added'' p n \<in> set (fst (diff_while cfg ha hb dn i j)) \<Longrightarrow>
   \<exists>k<length hb. j \<le> k \<and> p = pHead (entry (hb ! k)) \<and> n = dn
      \<and> is_hook_wanted cfg (hb ! k) = Inr True"
proof (induction "(length ha - i) + (length hb - j)" arbitrary: i j rule: less_induct)
  case less
  show ?case
  proof (cases "i < length ha \<and> j < length hb")
    case False
    with less.prems show ?thesis
      by (simp add: diff_while_stop)
  next
    case True
    then have i: "i < length ha" and j: "j < length hb" by simp_all
    consider (rem) "hook_key (ha ! i) < hook_key (hb ! j)"
      | (add) "hook_key (hb ! j) < hook_key (ha ! i)"
      | (both) "hook_key (ha ! i) = hook_key (hb ! j)"
      by linarith
    then show ?thesis
    proof cases
      case add
      have m: "length ha - i + (length hb - Suc j) < length ha - i + (length hb - j)"
        using j by simp
      from less.prems consider
        (here) "is_hook_wanted cfg (hb ! j) = Inr True" "p = pHead (entry (hb ! j))" "n = dn"
        | (later) "NoticeTitle ''Added'' p n \<in> set (fst (diff_while cfg ha hb dn i (Suc j)))"
        by (auto simp: diff_while_added [OF i j add] match_def emit_def removed_title_sources
            split: sum.splits if_splits)
      then show ?thesis
      proof cases
        case here
        with j show ?thesis by auto
      next
        case later
        from less.hyps [OF m later] show ?thesis
          using Suc_leD by blast
      qed
    next
      case rem
      have m: "length ha - Suc i + (length hb - j) < length ha - i + (length hb - j)"
        using i by simp
      from less.prems have
        "NoticeTitle ''Added'' p n \<in> set (fst (diff_while cfg ha hb dn (Suc i) j))"
        by (auto simp: diff_while_removed [OF i j rem] match_def emit_def removed_title_sources
            split: sum.splits if_splits)
      from less.hyps [OF m this] show ?thesis .
    next
      case both
      from less.prems show ?thesis
        by (simp add: diff_while_compared [OF i j both] no_removed_added_title_in_entry_block)
    qed
  qed
qed

text \<open>
  C5. In the loop over both lists, where both cursors are in range: when the old key is
  the smaller, \<^verbatim>\<open>is_hook_wanted\<close> is asked about the old record, the Removed notice is
  printed only if the answer is true, and the loop goes on with the old cursor advanced
  by one and the new cursor unchanged; when the new key is the smaller, the same holds
  of the new record, the Added notice and the new cursor. Hence every Removed and every
  Added title that this loop prints belongs to a record that \<^verbatim>\<open>is_hook_wanted\<close> accepts.
\<close>

theorem merge_loop_gated:
  assumes "a_hi < length ha" and "b_hi < length hb"
  shows "(hook_key (ha ! a_hi) < hook_key (hb ! b_hi) \<longrightarrow>
            diff_while cfg ha hb dn a_hi b_hi =
              (case is_hook_wanted cfg (ha ! a_hi) of
                 Inl e \<Rightarrow> ([], Inl e)
               | Inr wanted \<Rightarrow>
                   emit (if wanted then notice (ha ! a_hi) dn HOOK_REMOVED else [])
                     (diff_while cfg ha hb dn (a_hi + 1) b_hi)))
     \<and> (hook_key (hb ! b_hi) < hook_key (ha ! a_hi) \<longrightarrow>
            diff_while cfg ha hb dn a_hi b_hi =
              (case is_hook_wanted cfg (hb ! b_hi) of
                 Inl e \<Rightarrow> ([], Inl e)
               | Inr wanted \<Rightarrow>
                   emit (if wanted then notice (hb ! b_hi) dn HOOK_ADDED else [])
                     (diff_while cfg ha hb dn a_hi (b_hi + 1))))
     \<and> (\<forall>p n. NoticeTitle ''Removed'' p n \<in> set (fst (diff_while cfg ha hb dn a_hi b_hi)) \<longrightarrow>
            (\<exists>k<length ha. a_hi \<le> k \<and> p = pHead (entry (ha ! k)) \<and> n = dn
                \<and> is_hook_wanted cfg (ha ! k) = Inr True))
     \<and> (\<forall>p n. NoticeTitle ''Added'' p n \<in> set (fst (diff_while cfg ha hb dn a_hi b_hi)) \<longrightarrow>
            (\<exists>k<length hb. b_hi \<le> k \<and> p = pHead (entry (hb ! k)) \<and> n = dn
                \<and> is_hook_wanted cfg (hb ! k) = Inr True))"
  using diff_while_removed [OF assms, of cfg dn] diff_while_added [OF assms, of cfg dn]
    removed_title_gated [of _ _ cfg ha hb dn a_hi b_hi]
    added_title_gated [of _ _ cfg ha hb dn a_hi b_hi]
  by (simp add: match_def)


lemma sample_is_hook_wanted:
  "is_hook_wanted exclude_100_include_2 (sample_hook k pid ty) = Inr (pid \<noteq> 100 \<and> ty = 2)"
  by (simp add: is_hook_wanted_spec [OF scenario_pids_nonzero] sample_wanted)

theorem merge_loop_gated_witness:
  "0 < length [sample_hook 1 200 2] \<and> 0 < length [sample_hook 2 200 2]
   \<and> hook_key ([sample_hook 1 200 2] ! 0) < hook_key ([sample_hook 2 200 2] ! 0)
   \<and> is_hook_wanted exclude_100_include_2 (sample_hook 1 200 2) = Inr True
   \<and> diff_while exclude_100_include_2 [sample_hook 1 200 2] [sample_hook 2 200 2]
        (L ''Default'') 0 0
       = (notice (sample_hook 1 200 2) (L ''Default'') HOOK_REMOVED, Inr (1, 0))
   \<and> is_hook_wanted exclude_100_include_2 (sample_hook 1 100 2) = Inr False
   \<and> diff_while exclude_100_include_2 [sample_hook 1 100 2] [sample_hook 2 200 2]
        (L ''Default'') 0 0
       = ([], Inr (1, 0))"
  using merge_loop_gated [of 0 "[sample_hook 1 200 2]" 0 "[sample_hook 2 200 2]"
      exclude_100_include_2 "L ''Default''"]
    merge_loop_gated [of 0 "[sample_hook 1 100 2]" 0 "[sample_hook 2 200 2]"
      exclude_100_include_2 "L ''Default''"]
  by (simp add: sample_hook_key sample_is_hook_wanted diff_while_stop emit_def)

subsection \<open>The records left when one list is exhausted\<close>

text \<open>
  C4. The records left in the old list are printed as Removed and those left in the new
  list as Added, but the two loops that do so never ask \<^verbatim>\<open>is_hook_wanted\<close>: under
  "exclude pid=100, include type=2" a record of pid 100 is not wanted, and it is printed
  all the same when it is the only record of the old list, or of the new list.
\<close>

theorem leftover_records_not_gated:
  "is_hook_wanted exclude_100_include_2 (sample_hook 1 100 2) = Inr False
   \<and> print_diff_desktop_hook_items exclude_100_include_2
        (sample_item [sample_hook 1 100 2]) (sample_item [])
       = (notice (sample_hook 1 100 2) (L ''Default'') HOOK_REMOVED, None)
   \<and> print_diff_desktop_hook_items exclude_100_include_2
        (sample_item []) (sample_item [sample_hook 1 100 2])
       = (notice (sample_hook 1 100 2) (L ''Default'') HOOK_ADDED, None)"
  by (simp add: sample_is_hook_wanted print_diff_desktop_hook_items_def sample_item_def
      sample_desktop_def diff_while_stop removed_while_drop added_while_drop)

subsection \<open>The session differ\<close>

lemma lists_mismatch_fatal:
  "length list1 \<noteq> length list2 \<Longrightarrow>
   \<exists>e. snd (print_diff_desktop_hook_lists cfg list1 list2) = Some e"
  by (induction cfg list1 list2 rule: print_diff_desktop_hook_lists.induct)
     (auto simp: emit_def split: prod.splits option.splits)

lemma lists_mismatch_output:
  "length list1 \<noteq> length list2 \<Longrightarrow>
   \<forall>(a, b) \<in> set (zip list1 list2). snd (print_diff_desktop_hook_items cfg a b) = None \<Longrightarrow>
   print_diff_desktop_hook_lists cfg list1 list2
     = (concat (map (\<lambda>(a, b). fst (print_diff_desktop_hook_items cfg a b)) (zip list1 list2))
        @ [MSG_FATAL ''The desktop hook stores could not be fully compared.''],
        Some (Exit 1))"
  by (induction cfg list1 list2 rule: print_diff_desktop_hook_lists.induct)
     (auto simp: emit_def split: prod.splits option.splits)

text \<open>
  C3, as amended. When the two lists of desktops have different lengths,
  \<^verbatim>\<open>print_diff_desktop_hook_lists\<close> ends the process. When no pair of desktops fails a
  precondition, it first prints the changes of every leading pair, in order, then the
  fatal diagnostic, and exits with status 1; nothing is printed for the desktops that
  have no partner.
\<close>

theorem desktop_count_mismatch:
  assumes "length list1 \<noteq> length list2"
  shows "(\<exists>e. snd (print_diff_desktop_hook_lists cfg list1 list2) = Some e)
     \<and> ((\<forall>(a, b) \<in> set (zip list1 list2).
            snd (print_diff_desktop_hook_items cfg a b) = None) \<longrightarrow>
          print_diff_desktop_hook_lists cfg list1 list2
            = (concat (map (\<lambda>(a, b). fst (print_diff_desktop_hook_items cfg a b))
                        (zip list1 list2))
               @ [MSG_FATAL ''The desktop hook stores could not be fully compared.''],
               Some (Exit 1)))"
  using lists_mismatch_fatal [OF assms] lists_mismatch_output [OF assms] by blast

lemma sample_pair_run:
  "print_diff_desktop_hook_items exclude_100_include_2
     (sample_item [sample_hook 2 200 2]) (sample_item [sample_hook 3 200 2])
   = (notice (sample_hook 2 200 2) (L ''Default'') HOOK_REMOVED
      @ notice (sample_hook 3 200 2) (L ''Default'') HOOK_ADDED, None)"
proof -
  have "diff_while exclude_100_include_2 [sample_hook 2 200 2] [sample_hook 3 200 2]
          (L ''Default'') 0 0
        = (notice (sample_hook 2 200 2) (L ''Default'') HOOK_REMOVED, Inr (1, 0))"
    by (simp add: diff_while_removed sample_hook_key match_def sample_is_hook_wanted
        diff_while_stop emit_def)
  then show ?thesis
    by (simp add: print_diff_desktop_hook_items_def sample_item_def sample_desktop_def Let_def
        removed_while_drop added_while_drop)
qed

lemma sample_empty_run:
  "print_diff_desktop_hook_items exclude_100_include_2 (sample_item []) (sample_item [])
   = ([], None)"
  by (simp add: print_diff_desktop_hook_items_def sample_item_def diff_while_stop
      removed_while_drop added_while_drop)

theorem desktop_count_mismatch_witness:
  "length [sample_item [sample_hook 2 200 2], sample_item []]
     \<noteq> length [sample_item [sample_hook 3 200 2], sample_item [], sample_item []]
   \<and> print_diff_desktop_hook_lists exclude_100_include_2
        [sample_item [sample_hook 2 200 2], sample_item []]
        [sample_item [sample_hook 3 200 2], sample_item [], sample_item []]
       = (notice (sample_hook 2 200 2) (L ''Default'') HOOK_REMOVED
          @ notice (sample_hook 3 200 2) (L ''Default'') HOOK_ADDED
          @ [MSG_FATAL ''The desktop hook stores could not be fully compared.''],
          Some (Exit 1))"
  using desktop_count_mismatch
    [of "[sample_item [sample_hook 2 200 2], sample_item []]"
        "[sample_item [sample_hook 3 200 2], sample_item [], sample_item []]"
        exclude_100_include_2]
  by (simp add: sample_pair_run sample_empty_run)

text \<open>
  C3, as stated, fails: with one desktop in the old snapshot and two in the new one, the
  Removed and the Added notice of the first pair of desktops are printed before the
  fatal diagnostic. The two records of that pair have different keys, so no record is
  compared with another.
\<close>

theorem desktop_count_mismatch_counterexample:
  "length [sample_item [sample_hook 2 200 2]]
     \<noteq> length [sample_item [sample_hook 3 200 2], sample_item []]
   \<and> print_diff_desktop_hook_lists exclude_100_include_2
        [sample_item [sample_hook 2 200 2]]
        [sample_item [sample_hook 3 200 2], sample_item []]
       = (notice (sample_hook 2 200 2) (L ''Default'') HOOK_REMOVED
          @ notice (sample_hook 3 200 2) (L ''Default'') HOOK_ADDED
          @ [MSG_FATAL ''The desktop hook stores could not be fully compared.''],
          Some (Exit 1))
   \<and> notice (sample_hook 2 200 2) (L ''Default'') HOOK_REMOVED \<noteq> []"
  by (simp add: sample_pair_run emit_def notice_def print_hook_notice_begin_def)

subsection \<open>The merge at a key of both lists\<close>

lemma ownerless_fields:
  "hook_key (ownerless hk) = hook_key hk" "owner (ownerless hk) = None"
  "entry (ownerless hk) = entry hk"
  by (simp_all add: ownerless_def)

text \<open>
  C1. The merge should classify every key of two ascending lists: the keys of the old
  list alone as Removed, those of the new list alone as Added, those of both as
  compared. With the old keys 1, 3, 5 and the new keys 1, 4, 5 it reaches the pair of
  key 1, calls \<^verbatim>\<open>print_diff_hook\<close>, and the process ends there, in \<^verbatim>\<open>FAIL_IF\<close> when the
  records have no owner thread and in the read of the string literal when they have
  one. Nothing is printed: key 3 is not reported as Removed, nor key 4 as Added.
\<close>

theorem merge_ends_at_first_shared_key:
  "print_diff_desktop_hook_items exclude_100_include_2
     (sample_item [ownerless (sample_hook 1 200 2), ownerless (sample_hook 3 200 2),
                   ownerless (sample_hook 5 200 2)])
     (sample_item [ownerless (sample_hook 1 200 2), ownerless (sample_hook 4 200 2),
                   ownerless (sample_hook 5 200 2)])
   = ([], Some FAIL_IF_failed)
   \<and> print_diff_desktop_hook_items exclude_100_include_2
       (sample_item [sample_hook 1 200 2, sample_hook 3 200 2, sample_hook 5 200 2])
       (sample_item [sample_hook 1 200 2, sample_hook 4 200 2, sample_hook 5 200 2])
     = ([], Some Undefined_read)
   \<and> is_hook_wanted exclude_100_include_2 (sample_hook 3 200 2) = Inr True
   \<and> is_hook_wanted exclude_100_include_2 (sample_hook 4 200 2) = Inr True"
  by (simp add: print_diff_desktop_hook_items_def sample_item_def sample_desktop_def Let_def
      diff_while_compared ownerless_fields sample_hook_key entry_flags_block_same
      sample_is_hook_wanted, simp add: sample_hook_def)

end
